theory Spec2Isabelle
  imports Complex_Main "HOL-Library.AList" "HOL-Library.Multiset" "HOL-Library.Sublist"
begin

section \<open>Python values of \<open>moe_hybrid_parallel_plugin.py\<close>\<close>

text \<open>
  The module under verification is
  \<open>colossalai/booster/plugin/moe_hybrid_parallel_plugin.py\<close>. It defines the two classes
  \<open>MoeHybridParallelZeroOptimizer\<close> and \<open>MoeHybridParallelPlugin\<close>. Everything else it
  uses is imported: the superclasses, \<open>ProcessGroupMesh\<close>, \<open>get_param_info\<close>,
  \<open>reinitialize_optimizer\<close>, \<open>is_moe_tensor\<close>, the wrapper classes. A call to imported code
  is recorded as an event of the trace, in program order, and its result is a symbolic
  value built from the arguments of the call. Exceptions are values of type \<open>error\<close>.
\<close>

datatype error =
    RuntimeError string
  | NotImplementedError
  | ZeroDivisionError
  | ConfigurationError

text \<open>A parameter tensor, known by its identity.\<close>

datatype param = Param nat

text \<open>
  A process group mesh is known by its axis sizes. A process group handle is either one
  handed in from outside this module, or the group a mesh gives along one of its axes.
\<close>

datatype mesh = Mesh "int list"

datatype process_group =
    ProcessGroup nat
  | GroupAlongAxis mesh nat

datatype pyval = PyBool bool | PyInt int | PyNone

text \<open>
  The keyword dictionaries \<open>amp_config\<close> and \<open>zero_config\<close> of the plugin are unpacked into
  the keyword parameters of the optimizer constructors; the fields below are the
  parameters of \<open>MoeHybridParallelZeroOptimizer.__init__\<close> they feed (lines 40 to 54).
\<close>

record amp_config =
  initial_scale :: int
  min_scale :: int
  growth_factor :: real
  backoff_factor :: real
  growth_interval :: int
  hysteresis :: int
  max_scale :: int

record zero_config =
  reduce_bucket_size :: int
  communication_dtype :: "string option"
  overlap_communication :: bool
  partition_grad :: bool
  cpu_offload :: bool
  forced_dtype :: "string option"

record shard_config =
  shard_ep_group :: "process_group option"
  shard_rest :: nat

text \<open>The keyword arguments \<open>configure\<close> passes to \<open>HybridParallelModule\<close> (lines 154 to 164).\<close>

record module_kwargs =
  mk_precision :: string
  mk_shard_config :: shard_config
  mk_dp_group :: "process_group option"
  mk_tp_group :: "process_group option"
  mk_sp_group :: "process_group option"
  mk_use_ddp :: bool
  mk_ddp_config :: "(string \<times> pyval) list"
  mk_custom_policy :: "nat option"

text \<open>
  A model object: a plain \<open>torch.nn.Module\<close>, an object that already is a
  \<open>ModelWrapper\<close>, or the \<open>HybridParallelModule\<close> that \<open>configure\<close> builds around a module
  (a \<open>ModelWrapper\<close> as well: it is what \<open>configure\<close> returns as its wrapped model).
\<close>

datatype nn_module =
    Module nat
  | ModelWrapper nat
  | HybridParallelModule nn_module module_kwargs

fun isinstance_ModelWrapper :: "nn_module \<Rightarrow> bool" where
  "isinstance_ModelWrapper (Module _) = False"
| "isinstance_ModelWrapper (ModelWrapper _) = True"
| "isinstance_ModelWrapper (HybridParallelModule _ _) = True"

text \<open>
  The keyword arguments \<open>MoeHybridParallelZeroOptimizer.__init__\<close> hands to
  \<open>super().__init__\<close> (lines 72 to 97), apart from the model, the optimizer and
  \<open>param_info\<close>. \<open>pg_to_param_list\<close> is a Python dictionary: an association list in insertion
  order, a store to a key that is present replacing the value in place.
\<close>

record zero_super_kwargs =
  zs_use_pipeline :: bool
  zs_amp :: amp_config
  zs_clip_grad_norm :: real
  zs_verbose :: bool
  zs_reduce_bucket_size :: int
  zs_communication_dtype :: "string option"
  zs_overlap_communication :: bool
  zs_partition_grad :: bool
  zs_cpu_offload :: bool
  zs_tp_process_group :: "process_group option"
  zs_pp_process_group :: "process_group option"
  zs_forced_dtype :: "string option"
  zs_pg_to_param_list :: "(process_group option \<times> param list) list"

text \<open>
  An optimizer object: a plain \<open>torch.optim.Optimizer\<close>, an object that already is an
  \<open>OptimizerWrapper\<close>, or one of the three wrappers \<open>configure\<close> builds (each an
  \<open>OptimizerWrapper\<close>, the type \<open>configure\<close> declares for the optimizer it returns).
  \<open>HybridParallelZeroOptimizer\<close> stands for the object \<open>MoeHybridParallelZeroOptimizer\<close>
  becomes through \<open>super().__init__\<close>. \<open>param_info\<close> is what \<open>get_param_info\<close>, imported and
  kept symbolic, returned for the optimizer argument of \<open>configure\<close>.
\<close>

datatype optimizer =
    Optimizer nat
  | OptimizerWrapper nat
  | HybridParallelAMPOptimizer optimizer nn_module bool param_info string real amp_config
  | HybridParallelNaiveOptimizer optimizer nn_module bool param_info
  | HybridParallelZeroOptimizer optimizer nn_module param_info zero_super_kwargs
and param_info = ParamInfo "optimizer option"

fun isinstance_OptimizerWrapper :: "optimizer \<Rightarrow> bool" where
  "isinstance_OptimizerWrapper (Optimizer _) = False"
| "isinstance_OptimizerWrapper _ = True"

definition get_param_info :: "optimizer option \<Rightarrow> param_info" where
  "get_param_info optimizer = ParamInfo optimizer"

text \<open>
  \<open>MethodType(f, obj)\<close> where \<open>f\<close> is the bound method \<open>name\<close> of an optimizer object.
\<close>

datatype bound_method = MethodType optimizer string nn_module

text \<open>
  What \<open>configure\<close> receives and returns as its model: the object, and the attributes
  that have been assigned onto the instance from outside its class.
\<close>

record model =
  module :: nn_module
  instance_attrs :: "(string \<times> bound_method) list"

datatype event =
    Warning string
  | NewProcessGroupMesh "int list"
  | GetGroupAlongAxis nat
  | LoggerInfo int int int
  | NewHybridParallelModule nn_module
  | ReinitializeOptimizer optimizer nn_module
  | NewOptimizerWrapper optimizer
  | SetAttr nn_module string

section \<open>\<open>MoeHybridParallelZeroOptimizer.__init__\<close>\<close>

text \<open>
  The arguments of the constructor (lines 29 to 55); the loss-scaling keywords of lines
  40 to 46 and the communication keywords of lines 49 to 54 are grouped as above.
\<close>

record zero_init_args =
  zi_optimizer :: optimizer
  zi_model :: nn_module
  zi_use_pipeline :: bool
  zi_force_overlap_comm :: bool
  zi_dp_process_group :: "process_group option"
  zi_tp_process_group :: "process_group option"
  zi_pp_process_group :: "process_group option"
  zi_moe_dp_group :: process_group
  zi_param_info :: param_info
  zi_amp :: amp_config
  zi_clip_grad_norm :: real
  zi_verbose :: bool
  zi_zero :: zero_config

definition WARN_STR :: string where
  "WARN_STR = ''Note that you need to make sure every expert are routed (i.e.) every expert has backward, otherwise this might lead to program hang or inconsistent result''"

definition overlap_error :: error where
  "overlap_error = RuntimeError (WARN_STR @
     '' If you are not sure about this, set (overlap_communication=False and partition_grad=False) or force_overlap_comm=True'')"

definition overlap_warning :: event where
  "overlap_warning = Warning (WARN_STR @ '' Please make sure of this.'')"

text \<open>
  Lines 67 to 70. \<open>is_moe_tensor\<close> and \<open>model.parameters()\<close> are imported code and are
  arguments of the definition. The dictionary display stores the regular list under
  \<open>dp_process_group\<close> first and the expert list under \<open>moe_dp_group\<close> second.
\<close>

definition pg_param_list ::
  "(param \<Rightarrow> bool) \<Rightarrow> (nn_module \<Rightarrow> param list) \<Rightarrow> nn_module \<Rightarrow>
   process_group option \<Rightarrow> process_group \<Rightarrow> (process_group option \<times> param list) list" where
  "pg_param_list is_moe_tensor parameters m dp_process_group moe_dp_group =
     AList.update (Some moe_dp_group) (filter is_moe_tensor (parameters m))
       (AList.update dp_process_group (filter (\<lambda>p. \<not> is_moe_tensor p) (parameters m)) [])"

definition MoeHybridParallelZeroOptimizer_init ::
  "(param \<Rightarrow> bool) \<Rightarrow> (nn_module \<Rightarrow> param list) \<Rightarrow> zero_init_args \<Rightarrow>
   event list \<times> (error + optimizer)" where
  "MoeHybridParallelZeroOptimizer_init is_moe_tensor parameters a =
     (if \<not> zi_force_overlap_comm a \<and>
         (overlap_communication (zi_zero a) \<or> partition_grad (zi_zero a))
      then ([], Inl overlap_error)
      else
        let overlap = (if zi_force_overlap_comm a then True
                       else overlap_communication (zi_zero a));
            warned = (if zi_force_overlap_comm a then [overlap_warning] else [])
        in (warned,
            Inr (HybridParallelZeroOptimizer (zi_optimizer a) (zi_model a) (zi_param_info a)
              \<lparr> zs_use_pipeline = zi_use_pipeline a,
                zs_amp = zi_amp a,
                zs_clip_grad_norm = zi_clip_grad_norm a,
                zs_verbose = zi_verbose a,
                zs_reduce_bucket_size = reduce_bucket_size (zi_zero a),
                zs_communication_dtype = communication_dtype (zi_zero a),
                zs_overlap_communication = overlap,
                zs_partition_grad = partition_grad (zi_zero a),
                zs_cpu_offload = cpu_offload (zi_zero a),
                zs_tp_process_group = zi_tp_process_group a,
                zs_pp_process_group = zi_pp_process_group a,
                zs_forced_dtype = forced_dtype (zi_zero a),
                zs_pg_to_param_list =
                  pg_param_list is_moe_tensor parameters (zi_model a)
                    (zi_dp_process_group a) (zi_moe_dp_group a) \<rparr>)))"

section \<open>\<open>MoeHybridParallelPlugin.__init__\<close>\<close>

text \<open>
  The attributes \<open>HybridParallelPlugin.__init__\<close> (line 106, imported code) leaves on the
  object and this module reads: the state in which line 108 starts.
\<close>

record hybrid_parallel_plugin =
  dp_size :: int
  pp_size :: int
  zero_stage :: int
  precision :: string
  ddp_config :: "(string \<times> pyval) list"
  shard_config :: shard_config
  dp_group :: "process_group option"
  tp_group :: "process_group option"
  pp_group :: "process_group option"
  sp_group :: "process_group option"
  enable_pipeline_parallelism :: bool
  max_norm :: real
  zero_config :: zero_config
  amp_config :: amp_config
  custom_policy :: "nat option"

record moe_hybrid_parallel_plugin = hybrid_parallel_plugin +
  use_ddp :: bool
  moe_dp_size :: int
  ep_size :: int
  moe_tp_size :: int
  moe_pg_mesh :: mesh
  moe_dp_axis :: nat
  ep_axis :: nat
  moe_tp_axis :: nat
  moe_dp_group :: process_group
  ep_group :: process_group
  moe_tp_group :: process_group
  force_overlap_comm :: bool

text \<open>
  Modelled from the spec: \<open>ProcessGroupMesh\<close> (\<open>colossalai.cluster.process_group_mesh\<close>) is
  not part of the sources. The spec gives its contract: a mesh is built from an ordered
  list of positive axis sizes, and the build fails with a configuration error if the
  product of the sizes differs from the world size. A list that holds a size that is
  not positive is no list of axis sizes, and no mesh is built from it either.
\<close>

definition ProcessGroupMesh :: "int \<Rightarrow> int list \<Rightarrow> error + mesh" where
  "ProcessGroupMesh world_size sizes =
     (if (\<exists>s \<in> set sizes. s \<le> 0) \<or> prod_list sizes \<noteq> world_size
      then Inl ConfigurationError else Inr (Mesh sizes))"

text \<open>
  Modelled from the spec: \<open>get_group_along_axis\<close> of the missing \<open>ProcessGroupMesh\<close> returns
  the handle of the calling worker's group along the axis; which ranks the group holds
  is not modelled.
\<close>

definition get_group_along_axis :: "mesh \<Rightarrow> nat \<Rightarrow> process_group" where
  "get_group_along_axis m axis = GroupAlongAxis m axis"

definition ddp_warning :: event where
  "ddp_warning = Warning
     ''Will have to check all params are used in pytorch DDP since not all experts are always activated''"

text \<open>
  Lines 108 to 113: the value of \<open>use_ddp\<close>, the warning, and the store into the
  \<open>ddp_config\<close> dictionary.
\<close>

definition set_use_ddp ::
  "hybrid_parallel_plugin \<Rightarrow> event list \<times> bool \<times> (string \<times> pyval) list" where
  "set_use_ddp base =
     (let u = (dp_size base > 1 \<and> pp_size base = 1 \<and> zero_stage base = 0)
      in if u
         then ([ddp_warning], u,
               AList.update ''find_unused_parameters'' (PyBool True) (ddp_config base))
         else ([], u, ddp_config base))"

text \<open>
  Lines 118 to 122: the three axis sizes. \<open>//\<close> is floor division and raises on a zero
  divisor; \<open>div\<close> on \<open>int\<close> is floor division too.
\<close>

definition moe_axis_sizes :: "int \<Rightarrow> int \<Rightarrow> int \<Rightarrow> error + int list" where
  "moe_axis_sizes world_size ep moe_tp =
     (if ep * moe_tp = 0 then Inl ZeroDivisionError
      else Inr [world_size div (ep * moe_tp), ep, moe_tp])"

text \<open>
  The constructor after \<open>super().__init__\<close> has returned \<open>base\<close>. \<open>world_size\<close> is what
  \<open>dist.get_world_size()\<close> answers.
\<close>

definition MoeHybridParallelPlugin_init ::
  "int \<Rightarrow> hybrid_parallel_plugin \<Rightarrow> int \<Rightarrow> int \<Rightarrow> bool \<Rightarrow>
   event list \<times> (error + moe_hybrid_parallel_plugin)" where
  "MoeHybridParallelPlugin_init world_size base ep moe_tp force =
     (let (ev, u, ddp) = set_use_ddp base
      in if moe_tp \<noteq> 1 then (ev, Inl NotImplementedError)
         else
           (case moe_axis_sizes world_size ep moe_tp of
              Inl e \<Rightarrow> (ev, Inl e)
            | Inr sizes \<Rightarrow>
                (case ProcessGroupMesh world_size sizes of
                   Inl e \<Rightarrow> (ev @ [NewProcessGroupMesh sizes], Inl e)
                 | Inr m \<Rightarrow>
                     (let sc = (shard_config base)
                                 \<lparr> shard_ep_group := Some (get_group_along_axis m 1) \<rparr>;
                          b = base\<lparr> ddp_config := ddp, shard_config := sc \<rparr>
                      in (ev @ [NewProcessGroupMesh sizes, GetGroupAlongAxis 0,
                                GetGroupAlongAxis 1, GetGroupAlongAxis 2,
                                LoggerInfo ep (world_size div (ep * moe_tp)) moe_tp],
                          Inr (hybrid_parallel_plugin.extend b
                                (moe_hybrid_parallel_plugin.fields u
                                   (world_size div (ep * moe_tp)) ep moe_tp m 0 1 2
                                   (get_group_along_axis m 0) (get_group_along_axis m 1)
                                   (get_group_along_axis m 2) force)))))))"

section \<open>\<open>MoeHybridParallelPlugin.configure\<close>\<close>

definition overhead_warning :: event where
  "overhead_warning = Warning
     (''Use Zero Optimizer when data parallel size is 1 may introduce unnecessary overhead. '' @
      ''If you do not intend to use cpu_offload, please consider set zero_stage=0.'')"

text \<open>Lines 153 to 164: the model is wrapped unless it is a \<open>ModelWrapper\<close> already.\<close>

definition wrap_model :: "moe_hybrid_parallel_plugin \<Rightarrow> model \<Rightarrow> event list \<times> model" where
  "wrap_model self m =
     (if \<not> isinstance_ModelWrapper (module m)
      then
        let w = HybridParallelModule (module m)
                  \<lparr> mk_precision = precision self,
                    mk_shard_config = shard_config self,
                    mk_dp_group = dp_group self,
                    mk_tp_group = tp_group self,
                    mk_sp_group = sp_group self,
                    mk_use_ddp = use_ddp self,
                    mk_ddp_config = ddp_config self,
                    mk_custom_policy = custom_policy self \<rparr>
        in ([NewHybridParallelModule w], \<lparr> module = w, instance_attrs = [] \<rparr>)
      else ([], m))"

text \<open>
  Lines 166 to 206, for an optimizer that is neither \<open>None\<close> nor an \<open>OptimizerWrapper\<close>:
  the reinitialization, then one of the three wrappers.
\<close>

definition wrap_optimizer ::
  "(param \<Rightarrow> bool) \<Rightarrow> (nn_module \<Rightarrow> param list) \<Rightarrow> moe_hybrid_parallel_plugin \<Rightarrow>
   param_info \<Rightarrow> nn_module \<Rightarrow> optimizer \<Rightarrow> event list \<times> (error + optimizer)" where
  "wrap_optimizer is_moe_tensor parameters self pinfo m opt =
     (let ev_r = (if ep_size self > 1 then [ReinitializeOptimizer opt m] else [])
      in if zero_stage self = 0
         then
           (if precision self \<in> set [''fp16'', ''bf16'']
            then
              let w = HybridParallelAMPOptimizer opt m (enable_pipeline_parallelism self) pinfo
                        (precision self) (max_norm self) (amp_config self)
              in (ev_r @ [NewOptimizerWrapper w], Inr w)
            else
              let w = HybridParallelNaiveOptimizer opt m (enable_pipeline_parallelism self) pinfo
              in (ev_r @ [NewOptimizerWrapper w], Inr w))
         else
           let ev_w = (if \<not> (dp_size self > 1 \<or> moe_dp_size self > 1)
                       then [overhead_warning] else [])
           in case MoeHybridParallelZeroOptimizer_init is_moe_tensor parameters
                     \<lparr> zi_optimizer = opt,
                       zi_model = m,
                       zi_use_pipeline = enable_pipeline_parallelism self,
                       zi_force_overlap_comm = force_overlap_comm self,
                       zi_dp_process_group = dp_group self,
                       zi_tp_process_group = tp_group self,
                       zi_pp_process_group = pp_group self,
                       zi_moe_dp_group = moe_dp_group self,
                       zi_param_info = pinfo,
                       zi_amp = amp_config self,
                       zi_clip_grad_norm = max_norm self,
                       zi_verbose = True,
                       zi_zero = zero_config self \<rparr> of
                (ev_z, Inl e) \<Rightarrow> (ev_r @ ev_w @ ev_z, Inl e)
              | (ev_z, Inr w) \<Rightarrow> (ev_r @ ev_w @ ev_z @ [NewOptimizerWrapper w], Inr w))"

text \<open>Line 208: the method object is stored as an attribute of the model instance.\<close>

definition inject_update_master_params :: "model \<Rightarrow> optimizer \<Rightarrow> model" where
  "inject_update_master_params m w =
     m\<lparr> instance_attrs :=
          AList.update ''update_master_params''
            (MethodType w ''update_master_params'' (module m)) (instance_attrs m) \<rparr>"

definition configure ::
  "(param \<Rightarrow> bool) \<Rightarrow> (nn_module \<Rightarrow> param list) \<Rightarrow> moe_hybrid_parallel_plugin \<Rightarrow>
   model \<Rightarrow> optimizer option \<Rightarrow> 'c \<Rightarrow> 'd \<Rightarrow> 'l \<Rightarrow>
   event list \<times> (error + model \<times> optimizer option \<times> 'c \<times> 'd \<times> 'l)" where
  "configure is_moe_tensor parameters self m0 optimizer criterion dataloader lr_scheduler =
     (let pinfo = get_param_info optimizer
      in case wrap_model self m0 of (ev_m, m) \<Rightarrow>
           (case optimizer of
              None \<Rightarrow> (ev_m, Inr (m, None, criterion, dataloader, lr_scheduler))
            | Some opt \<Rightarrow>
                if isinstance_OptimizerWrapper opt
                then (ev_m, Inr (m, Some opt, criterion, dataloader, lr_scheduler))
                else
                  (case wrap_optimizer is_moe_tensor parameters self pinfo (module m) opt of
                     (ev_o, Inl e) \<Rightarrow> (ev_m @ ev_o, Inl e)
                   | (ev_o, Inr w) \<Rightarrow>
                       (ev_m @ ev_o @ [SetAttr (module m) ''update_master_params''],
                        Inr (inject_update_master_params m w, Some w,
                             criterion, dataloader, lr_scheduler)))))"

section \<open>Concrete configurations\<close>

text \<open>
  The keyword defaults of lines 40 to 54, a plugin state as the superclass constructor
  leaves it, a constructed plugin and a plain model, for evaluating the definitions.
\<close>

definition ex_amp :: amp_config where
  "ex_amp = \<lparr> initial_scale = 65536, min_scale = 1, growth_factor = 2, backoff_factor = 1 / 2,
       growth_interval = 2000, hysteresis = 2, max_scale = 16777216 \<rparr>"

definition ex_zero :: "bool \<Rightarrow> bool \<Rightarrow> zero_config" where
  "ex_zero oc pg = \<lparr> reduce_bucket_size = 1048576, communication_dtype = None,
       overlap_communication = oc, partition_grad = pg, cpu_offload = False,
       forced_dtype = None \<rparr>"

definition ex_args :: "bool \<Rightarrow> bool \<Rightarrow> bool \<Rightarrow> zero_init_args" where
  "ex_args force oc pg = \<lparr> zi_optimizer = Optimizer 0, zi_model = Module 0,
       zi_use_pipeline = False, zi_force_overlap_comm = force,
       zi_dp_process_group = Some (ProcessGroup 0), zi_tp_process_group = None,
       zi_pp_process_group = None, zi_moe_dp_group = ProcessGroup 1,
       zi_param_info = ParamInfo (Some (Optimizer 0)), zi_amp = ex_amp,
       zi_clip_grad_norm = 0, zi_verbose = False, zi_zero = ex_zero oc pg \<rparr>"

definition ex_base :: "int \<Rightarrow> int \<Rightarrow> int \<Rightarrow> zero_config \<Rightarrow> hybrid_parallel_plugin" where
  "ex_base dp pp zs zc = \<lparr> dp_size = dp, pp_size = pp, zero_stage = zs, precision = ''fp16'',
       ddp_config = [(''broadcast_buffers'', PyBool True)],
       shard_config = \<lparr> shard_ep_group = None, shard_rest = 0 \<rparr>,
       dp_group = Some (ProcessGroup 0), tp_group = Some (ProcessGroup 1),
       pp_group = Some (ProcessGroup 2), sp_group = None,
       enable_pipeline_parallelism = False, max_norm = 0,
       zero_config = zc, amp_config = ex_amp, custom_policy = None \<rparr>"

definition ex_plugin ::
  "int \<Rightarrow> int \<Rightarrow> zero_config \<Rightarrow> int \<Rightarrow> int \<Rightarrow> bool \<Rightarrow> moe_hybrid_parallel_plugin" where
  "ex_plugin dp zs zc moe_dp ep force =
     hybrid_parallel_plugin.extend (ex_base dp 1 zs zc)
       (moe_hybrid_parallel_plugin.fields (dp > 1 \<and> zs = 0) moe_dp ep 1
          (Mesh [moe_dp, ep, 1]) 0 1 2
          (GroupAlongAxis (Mesh [moe_dp, ep, 1]) 0) (GroupAlongAxis (Mesh [moe_dp, ep, 1]) 1)
          (GroupAlongAxis (Mesh [moe_dp, ep, 1]) 2) force)"

definition ex_model :: model where
  "ex_model = \<lparr> module = Module 0, instance_attrs = [] \<rparr>"

definition ex_wrapped :: model where
  "ex_wrapped = \<lparr> module = ModelWrapper 5, instance_attrs = [] \<rparr>"

definition ex_amp_optimizer :: "nn_module \<Rightarrow> optimizer" where
  "ex_amp_optimizer m = HybridParallelAMPOptimizer (Optimizer 0) m False
       (ParamInfo (Some (Optimizer 0))) ''fp16'' 0 ex_amp"

section \<open>Auxiliary facts\<close>

lemmas ex_defs = ex_plugin_def ex_base_def ex_zero_def ex_model_def ex_wrapped_def
  ex_args_def ex_amp_optimizer_def hybrid_parallel_plugin.defs moe_hybrid_parallel_plugin.defs

subsection \<open>The parameter lists\<close>

lemma pg_param_list_two_groups:
  "dp \<noteq> Some moe \<Longrightarrow> pg_param_list f ps m dp moe =
     [(dp, filter (\<lambda>p. \<not> f p) (ps m)), (Some moe, filter f (ps m))]"
  by (simp add: pg_param_list_def)

lemma pg_param_list_one_group:
  "pg_param_list f ps m (Some g) g = [(Some g, filter f (ps m))]"
  by (simp add: pg_param_list_def)

lemma filter_split_mset: "mset (filter (\<lambda>p. \<not> f p) xs @ filter f xs) = mset xs"
  by (induction xs) simp_all

lemma filter_split_disjoint: "set (filter (\<lambda>p. \<not> f p) xs) \<inter> set (filter f xs) = {}"
  by auto

text \<open>
  With two different handles the dictionary holds the two lists, and they are a stable
  partition of the parameter list.
\<close>

lemma pg_param_list_partition:
  assumes "dp \<noteq> Some moe"
  shows "\<exists>regular expert.
           pg_param_list f ps m dp moe = [(dp, regular), (Some moe, expert)]
         \<and> (\<forall>p \<in> set regular. \<not> f p) \<and> (\<forall>p \<in> set expert. f p)
         \<and> set regular \<inter> set expert = {}
         \<and> mset (regular @ expert) = mset (ps m)
         \<and> subseq regular (ps m) \<and> subseq expert (ps m)"
  using pg_param_list_two_groups [OF assms, of f ps m] filter_split_mset [of f "ps m"]
  by auto

subsection \<open>The sharded optimizer's constructor\<close>

lemma zero_init_rejects:
  "\<not> zi_force_overlap_comm a \<Longrightarrow>
   overlap_communication (zi_zero a) \<or> partition_grad (zi_zero a) \<Longrightarrow>
     MoeHybridParallelZeroOptimizer_init f ps a = ([], Inl overlap_error)"
  by (simp add: MoeHybridParallelZeroOptimizer_init_def)

lemma zero_init_accepts:
  "zi_force_overlap_comm a \<or>
   \<not> (overlap_communication (zi_zero a) \<or> partition_grad (zi_zero a)) \<Longrightarrow>
     \<exists>kw. MoeHybridParallelZeroOptimizer_init f ps a =
        (if zi_force_overlap_comm a then [overlap_warning] else [],
         Inr (HybridParallelZeroOptimizer (zi_optimizer a) (zi_model a) (zi_param_info a) kw))
      \<and> zs_overlap_communication kw = zi_force_overlap_comm a
      \<and> zs_pg_to_param_list kw =
          pg_param_list f ps (zi_model a) (zi_dp_process_group a) (zi_moe_dp_group a)"
  by (cases "zi_force_overlap_comm a") (simp_all add: MoeHybridParallelZeroOptimizer_init_def)

subsection \<open>The plugin's constructor\<close>

lemma set_use_ddp_on:
  "dp_size base > 1 \<Longrightarrow> pp_size base = 1 \<Longrightarrow> zero_stage base = 0 \<Longrightarrow>
     set_use_ddp base = ([ddp_warning], True,
       AList.update ''find_unused_parameters'' (PyBool True) (ddp_config base))"
  by (simp add: set_use_ddp_def)

lemma set_use_ddp_off:
  "\<not> (dp_size base > 1 \<and> pp_size base = 1 \<and> zero_stage base = 0) \<Longrightarrow>
     set_use_ddp base = ([], False, ddp_config base)"
  by (auto simp: set_use_ddp_def Let_def)

lemma moe_axis_sizes_one:
  "moe_axis_sizes w ep 1 = (if ep = 0 then Inl ZeroDivisionError else Inr [w div ep, ep, 1])"
  by (simp add: moe_axis_sizes_def)

lemma div_mult_self_iff: "(w::int) div ep * ep = w \<longleftrightarrow> ep dvd w"
  by (metis dvd_div_mult_self dvd_triv_right)

lemma plugin_init_not_implemented:
  "moe_tp \<noteq> 1 \<Longrightarrow>
     MoeHybridParallelPlugin_init w base ep moe_tp force =
       (fst (set_use_ddp base), Inl NotImplementedError)"
  by (simp add: MoeHybridParallelPlugin_init_def split: prod.splits)

lemma plugin_init_zero_division:
  "MoeHybridParallelPlugin_init w base 0 1 force = (fst (set_use_ddp base), Inl ZeroDivisionError)"
  by (simp add: MoeHybridParallelPlugin_init_def moe_axis_sizes_one split: prod.splits)

text \<open>
  The sizes of lines 120 to 122 by themselves: the data-parallel size is a floor
  division, so the three multiply to the world size only if \<open>ep_size\<close> divides it. World
  size 8 with \<open>ep_size\<close> 3 gives 2, 3, 1.
\<close>

lemma moe_axis_sizes_floor:
  "moe_axis_sizes w ep 1 = Inr sizes \<Longrightarrow> (prod_list sizes = w \<longleftrightarrow> ep dvd w)"
  by (auto simp: moe_axis_sizes_one div_mult_self_iff split: if_splits)

lemma moe_axis_sizes_8_3: "moe_axis_sizes 8 3 1 = Inr [2, 3, 1]"
  by (simp add: moe_axis_sizes_def)

text \<open>Which of these size lists the mesh build takes.\<close>

lemma mesh_takes_iff:
  "(\<exists>m. ProcessGroupMesh w [w div ep, ep, 1] = Inr m) \<longleftrightarrow> 0 < ep \<and> 0 < w \<and> ep dvd w"
proof
  assume "\<exists>m. ProcessGroupMesh w [w div ep, ep, 1] = Inr m"
  then have pos: "0 < w div ep" "0 < ep" and prod: "w div ep * ep = w"
    by (auto simp: ProcessGroupMesh_def split: if_splits)
  from prod have "ep dvd w"
    by (simp add: div_mult_self_iff)
  moreover from pos have "0 < w div ep * ep"
    by simp
  with prod have "0 < w"
    by simp
  ultimately show "0 < ep \<and> 0 < w \<and> ep dvd w"
    using pos(2) by simp
next
  assume a: "0 < ep \<and> 0 < w \<and> ep dvd w"
  then have "ep \<le> w"
    by (simp add: zdvd_imp_le)
  with a have "0 < w div ep"
    by (simp add: pos_imp_zdiv_pos_iff)
  moreover from a have "w div ep * ep = w"
    by (simp add: div_mult_self_iff)
  ultimately show "\<exists>m. ProcessGroupMesh w [w div ep, ep, 1] = Inr m"
    using a by (simp add: ProcessGroupMesh_def)
qed

lemma mesh_result:
  "ProcessGroupMesh w sizes = Inr m \<Longrightarrow> m = Mesh sizes \<and> prod_list sizes = w"
  by (auto simp: ProcessGroupMesh_def split: if_splits)

lemma mesh_error:
  "ProcessGroupMesh w sizes = Inl e \<Longrightarrow> e = ConfigurationError"
  by (auto simp: ProcessGroupMesh_def split: if_splits)

lemma plugin_init_mesh_rejects:
  "ep \<noteq> 0 \<Longrightarrow> \<not> (0 < ep \<and> 0 < w \<and> ep dvd w) \<Longrightarrow>
     MoeHybridParallelPlugin_init w base ep 1 force =
       (fst (set_use_ddp base) @ [NewProcessGroupMesh [w div ep, ep, 1]], Inl ConfigurationError)"
proof -
  assume ep: "ep \<noteq> 0" and no: "\<not> (0 < ep \<and> 0 < w \<and> ep dvd w)"
  from no mesh_takes_iff [of w ep]
  obtain e where "ProcessGroupMesh w [w div ep, ep, 1] = Inl e"
    by (cases "ProcessGroupMesh w [w div ep, ep, 1]") auto
  with mesh_error [OF this] have "ProcessGroupMesh w [w div ep, ep, 1] = Inl ConfigurationError"
    by simp
  with ep show ?thesis
    by (simp add: MoeHybridParallelPlugin_init_def moe_axis_sizes_one split: prod.splits)
qed

lemma plugin_init_succeeds:
  assumes "0 < ep" "0 < w" "ep dvd w"
  shows "\<exists>ev p. MoeHybridParallelPlugin_init w base ep 1 force = (fst (set_use_ddp base) @ ev, Inr p)
     \<and> ev = [NewProcessGroupMesh [w div ep, ep, 1], GetGroupAlongAxis 0, GetGroupAlongAxis 1,
             GetGroupAlongAxis 2, LoggerInfo ep (w div ep) 1]
     \<and> use_ddp p = fst (snd (set_use_ddp base))
     \<and> ddp_config p = snd (snd (set_use_ddp base))
     \<and> moe_dp_size p = w div ep \<and> ep_size p = ep \<and> moe_tp_size p = 1
     \<and> moe_pg_mesh p = Mesh [w div ep, ep, 1]
     \<and> force_overlap_comm p = force"
proof -
  from assms mesh_takes_iff [of w ep]
  obtain m where "ProcessGroupMesh w [w div ep, ep, 1] = Inr m"
    by blast
  with mesh_result [OF this]
  have m: "ProcessGroupMesh w [w div ep, ep, 1] = Inr (Mesh [w div ep, ep, 1])"
    by simp
  from assms(1) have "ep \<noteq> 0"
    by simp
  with m show ?thesis
    by (simp add: MoeHybridParallelPlugin_init_def moe_axis_sizes_one Let_def
          hybrid_parallel_plugin.defs moe_hybrid_parallel_plugin.defs split: prod.splits)
qed

text \<open>
  The four ways the constructor ends, by its arguments alone: whatever the superclass
  has left, only \<open>moe_tp_size\<close>, \<open>ep_size\<close> and the world size decide.
\<close>

lemma plugin_init_cases:
  obtains (not_implemented) "moe_tp \<noteq> 1"
      "MoeHybridParallelPlugin_init w base ep moe_tp force =
         (fst (set_use_ddp base), Inl NotImplementedError)"
    | (zero_division) "moe_tp = 1" "ep = 0"
      "MoeHybridParallelPlugin_init w base ep moe_tp force =
         (fst (set_use_ddp base), Inl ZeroDivisionError)"
    | (mesh_rejects) "moe_tp = 1" "ep \<noteq> 0"
      "MoeHybridParallelPlugin_init w base ep moe_tp force =
         (fst (set_use_ddp base) @ [NewProcessGroupMesh [w div ep, ep, 1]],
          Inl ConfigurationError)"
    | (constructed) p where "moe_tp = 1" "0 < ep" "0 < w" "ep dvd w"
      "MoeHybridParallelPlugin_init w base ep moe_tp force =
         (fst (set_use_ddp base) @
            [NewProcessGroupMesh [w div ep, ep, 1], GetGroupAlongAxis 0, GetGroupAlongAxis 1,
             GetGroupAlongAxis 2, LoggerInfo ep (w div ep) 1], Inr p)"
      "use_ddp p = fst (snd (set_use_ddp base))"
      "ddp_config p = snd (snd (set_use_ddp base))"
      "moe_dp_size p = w div ep" "ep_size p = ep" "moe_tp_size p = 1"
      "moe_pg_mesh p = Mesh [w div ep, ep, 1]"
proof (cases "moe_tp = 1")
  case False
  with plugin_init_not_implemented [OF False, of w base ep force] not_implemented
  show ?thesis by blast
next
  case tp: True
  show ?thesis
  proof (cases "ep = 0")
    case True
    with tp plugin_init_zero_division [of w base force] zero_division
    show ?thesis by blast
  next
    case ep: False
    show ?thesis
    proof (cases "0 < ep \<and> 0 < w \<and> ep dvd w")
      case False
      with tp ep plugin_init_mesh_rejects [OF ep False, of base force] mesh_rejects
      show ?thesis by blast
    next
      case True
      then have a: "0 < ep" "0 < w" "ep dvd w"
        by simp_all
      from plugin_init_succeeds [OF a, of base force] tp
      obtain p where "MoeHybridParallelPlugin_init w base ep moe_tp force =
         (fst (set_use_ddp base) @
            [NewProcessGroupMesh [w div ep, ep, 1], GetGroupAlongAxis 0, GetGroupAlongAxis 1,
             GetGroupAlongAxis 2, LoggerInfo ep (w div ep) 1], Inr p)"
        "use_ddp p = fst (snd (set_use_ddp base))"
        "ddp_config p = snd (snd (set_use_ddp base))"
        "moe_dp_size p = w div ep" "ep_size p = ep" "moe_tp_size p = 1"
        "moe_pg_mesh p = Mesh [w div ep, ep, 1]"
        by auto
      with tp a constructed show ?thesis
        by blast
    qed
  qed
qed

subsection \<open>\<open>configure\<close>\<close>

lemma wrap_model_wrapper:
  "isinstance_ModelWrapper (module m) \<Longrightarrow> wrap_model self m = ([], m)"
  by (simp add: wrap_model_def)

lemma wrap_model_plain:
  "\<not> isinstance_ModelWrapper (module m) \<Longrightarrow>
     \<exists>w. wrap_model self m = ([NewHybridParallelModule w], \<lparr> module = w, instance_attrs = [] \<rparr>)"
  by (simp add: wrap_model_def Let_def)

lemma wrap_model_events:
  "wrap_model self m = (ev, m') \<Longrightarrow> \<forall>e \<in> set ev. \<exists>w. e = NewHybridParallelModule w"
  by (cases "isinstance_ModelWrapper (module m)") (auto simp: wrap_model_def Let_def)

lemma wrap_optimizer_stage0:
  "zero_stage self = 0 \<Longrightarrow>
     \<exists>w. wrap_optimizer f ps self pinfo m opt =
        ((if ep_size self > 1 then [ReinitializeOptimizer opt m] else []) @ [NewOptimizerWrapper w],
         Inr w) \<and> isinstance_OptimizerWrapper w"
  by (cases "precision self \<in> set [''fp16'', ''bf16'']")
     (simp_all add: wrap_optimizer_def Let_def del: set_simps)

lemma wrap_optimizer_rejects:
  assumes "zero_stage self \<noteq> 0" "\<not> force_overlap_comm self"
    "overlap_communication (zero_config self) \<or> partition_grad (zero_config self)"
  shows "wrap_optimizer f ps self pinfo m opt =
     ((if ep_size self > 1 then [ReinitializeOptimizer opt m] else []) @
      (if \<not> (dp_size self > 1 \<or> moe_dp_size self > 1) then [overhead_warning] else []),
      Inl overlap_error)"
  using assms by (simp add: wrap_optimizer_def Let_def zero_init_rejects)

lemma wrap_optimizer_accepts:
  assumes "zero_stage self \<noteq> 0"
    "force_overlap_comm self \<or>
     \<not> (overlap_communication (zero_config self) \<or> partition_grad (zero_config self))"
  shows "\<exists>kw. wrap_optimizer f ps self pinfo m opt =
     ((if ep_size self > 1 then [ReinitializeOptimizer opt m] else []) @
      (if \<not> (dp_size self > 1 \<or> moe_dp_size self > 1) then [overhead_warning] else []) @
      (if force_overlap_comm self then [overlap_warning] else []) @
      [NewOptimizerWrapper (HybridParallelZeroOptimizer opt m pinfo kw)],
      Inr (HybridParallelZeroOptimizer opt m pinfo kw))
     \<and> zs_overlap_communication kw = force_overlap_comm self
     \<and> zs_pg_to_param_list kw = pg_param_list f ps m (dp_group self) (moe_dp_group self)"
proof -
  let ?a = "\<lparr> zi_optimizer = opt, zi_model = m,
              zi_use_pipeline = enable_pipeline_parallelism self,
              zi_force_overlap_comm = force_overlap_comm self,
              zi_dp_process_group = dp_group self, zi_tp_process_group = tp_group self,
              zi_pp_process_group = pp_group self, zi_moe_dp_group = moe_dp_group self,
              zi_param_info = pinfo, zi_amp = amp_config self,
              zi_clip_grad_norm = max_norm self, zi_verbose = True,
              zi_zero = zero_config self \<rparr>"
  from assms(2) have "zi_force_overlap_comm ?a \<or>
      \<not> (overlap_communication (zi_zero ?a) \<or> partition_grad (zi_zero ?a))"
    by simp
  from zero_init_accepts [OF this, of f ps]
  obtain kw where kw: "MoeHybridParallelZeroOptimizer_init f ps ?a =
        (if force_overlap_comm self then [overlap_warning] else [],
         Inr (HybridParallelZeroOptimizer opt m pinfo kw))"
      "zs_overlap_communication kw = force_overlap_comm self"
      "zs_pg_to_param_list kw = pg_param_list f ps m (dp_group self) (moe_dp_group self)"
    by auto
  have "wrap_optimizer f ps self pinfo m opt =
     ((if ep_size self > 1 then [ReinitializeOptimizer opt m] else []) @
      (if \<not> (dp_size self > 1 \<or> moe_dp_size self > 1) then [overhead_warning] else []) @
      (if force_overlap_comm self then [overlap_warning] else []) @
      [NewOptimizerWrapper (HybridParallelZeroOptimizer opt m pinfo kw)],
      Inr (HybridParallelZeroOptimizer opt m pinfo kw))"
    using assms(1) by (simp add: wrap_optimizer_def Let_def kw(1))
  with kw(2,3) show ?thesis by blast
qed

text \<open>
  The trace of the optimizer step: the reinitialization, if any, comes first and only
  once; a wrapper that is returned was constructed last.
\<close>

lemma wrap_optimizer_trace:
  "\<exists>mid. fst (wrap_optimizer f ps self pinfo m opt) =
           (if ep_size self > 1 then [ReinitializeOptimizer opt m] else []) @ mid
         \<and> (\<forall>p q. ReinitializeOptimizer p q \<notin> set mid)
         \<and> (\<forall>p q. SetAttr p q \<notin> set mid)"
proof (cases "zero_stage self = 0")
  case True
  from wrap_optimizer_stage0 [OF True, of f ps pinfo m opt] show ?thesis by auto
next
  case False
  show ?thesis
  proof (cases "force_overlap_comm self \<or>
      \<not> (overlap_communication (zero_config self) \<or> partition_grad (zero_config self))")
    case True
    from wrap_optimizer_accepts [OF False True, of f ps pinfo m opt] show ?thesis
      by (auto simp: overhead_warning_def overlap_warning_def)
  next
    case False
    with wrap_optimizer_rejects [OF \<open>zero_stage self \<noteq> 0\<close>, of f ps pinfo m opt] show ?thesis
      by (auto simp: overhead_warning_def)
  qed
qed

lemma wrap_optimizer_returns:
  assumes "wrap_optimizer f ps self pinfo m opt = (ev, Inr w)"
  shows "isinstance_OptimizerWrapper w \<and>
         (\<exists>pre. ev = pre @ [NewOptimizerWrapper w] \<and> (\<forall>w'. NewOptimizerWrapper w' \<notin> set pre))"
proof (cases "zero_stage self = 0")
  case True
  from wrap_optimizer_stage0 [OF True, of f ps pinfo m opt] assms show ?thesis by auto
next
  case False
  show ?thesis
  proof (cases "force_overlap_comm self \<or>
      \<not> (overlap_communication (zero_config self) \<or> partition_grad (zero_config self))")
    case True
    from wrap_optimizer_accepts [OF False True, of f ps pinfo m opt] assms show ?thesis
      by (auto simp: overhead_warning_def overlap_warning_def)
  next
    case False
    with wrap_optimizer_rejects [OF \<open>zero_stage self \<noteq> 0\<close>, of f ps pinfo m opt] assms
    show ?thesis by auto
  qed
qed

lemma configure_unwrapped:
  assumes "\<not> isinstance_OptimizerWrapper opt"
    "wrap_model self m0 = (ev_m, m)"
    "wrap_optimizer f ps self (get_param_info (Some opt)) (module m) opt = (ev_o, r)"
  shows "configure f ps self m0 (Some opt) c d l =
     (case r of
        Inl e \<Rightarrow> (ev_m @ ev_o, Inl e)
      | Inr w \<Rightarrow> (ev_m @ ev_o @ [SetAttr (module m) ''update_master_params''],
                  Inr (inject_update_master_params m w, Some w, c, d, l)))"
  using assms by (simp add: configure_def split: sum.splits)

lemma configure_passthrough:
  assumes "optimizer = None \<or> (\<exists>opt. optimizer = Some opt \<and> isinstance_OptimizerWrapper opt)"
  shows "configure f ps self m0 optimizer c d l =
     (fst (wrap_model self m0), Inr (snd (wrap_model self m0), optimizer, c, d, l))"
  using assms by (auto simp: configure_def split: prod.splits)

text \<open>
  \<open>configure\<close> raises only through the sharded optimizer's constructor; every other call
  returns.
\<close>

lemma configure_raises_iff:
  "(\<exists>e. snd (configure f ps self m0 optimizer c d l) = Inl e) \<longleftrightarrow>
     (\<exists>opt. optimizer = Some opt \<and> \<not> isinstance_OptimizerWrapper opt) \<and>
     zero_stage self \<noteq> 0 \<and> \<not> force_overlap_comm self \<and>
     (overlap_communication (zero_config self) \<or> partition_grad (zero_config self))"
proof (cases "optimizer = None \<or> (\<exists>opt. optimizer = Some opt \<and> isinstance_OptimizerWrapper opt)")
  case True
  from configure_passthrough [OF True, of f ps self m0 c d l] True show ?thesis by auto
next
  case False
  then obtain opt where opt: "optimizer = Some opt" "\<not> isinstance_OptimizerWrapper opt"
    by (cases optimizer) auto
  obtain ev_m m where wm: "wrap_model self m0 = (ev_m, m)"
    by (cases "wrap_model self m0")
  obtain ev_o r where wo:
    "wrap_optimizer f ps self (get_param_info (Some opt)) (module m) opt = (ev_o, r)"
    by (cases "wrap_optimizer f ps self (get_param_info (Some opt)) (module m) opt")
  note cf = configure_unwrapped [OF opt(2) wm wo, of c d l]
  show ?thesis
  proof (cases "zero_stage self = 0")
    case True
    from wrap_optimizer_stage0 [OF True, of f ps "get_param_info (Some opt)" "module m" opt]
    show ?thesis using cf wo opt True by auto
  next
    case nz: False
    show ?thesis
    proof (cases "force_overlap_comm self \<or>
        \<not> (overlap_communication (zero_config self) \<or> partition_grad (zero_config self))")
      case True
      from wrap_optimizer_accepts [OF nz True, of f ps "get_param_info (Some opt)" "module m" opt]
      show ?thesis using cf wo opt True by auto
    next
      case False
      with wrap_optimizer_rejects [OF nz, of f ps "get_param_info (Some opt)" "module m" opt]
      show ?thesis using cf wo opt nz by auto
    qed
  qed
qed

section \<open>The claims\<close>

subsection \<open>C1: the overlap check of the sharded optimizer\<close>

text \<open>
  Claim C1. For every combination of constructor arguments of
  \<open>MoeHybridParallelZeroOptimizer\<close>: if \<open>force_overlap_comm\<close> is false and
  \<open>overlap_communication\<close> or \<open>partition_grad\<close> is true, construction fails with the
  \<open>RuntimeError\<close> of line 58 and nothing else happens; if \<open>force_overlap_comm\<close> is true,
  construction passes the check, the warning of line 65 is emitted, and the optimizer is
  built with \<open>overlap_communication\<close> enabled whatever the caller passed for it.
\<close>

theorem zero_init_overlap_check:
  "(\<not> zi_force_overlap_comm a \<and>
      (overlap_communication (zi_zero a) \<or> partition_grad (zi_zero a)) \<longrightarrow>
      MoeHybridParallelZeroOptimizer_init is_moe_tensor parameters a = ([], Inl overlap_error))
   \<and> (zi_force_overlap_comm a \<longrightarrow>
      (\<exists>kw. MoeHybridParallelZeroOptimizer_init is_moe_tensor parameters a =
         ([overlap_warning],
          Inr (HybridParallelZeroOptimizer (zi_optimizer a) (zi_model a) (zi_param_info a) kw))
        \<and> zs_overlap_communication kw))"
  by (simp add: MoeHybridParallelZeroOptimizer_init_def)

text \<open>
  The three cases of C1 at concrete arguments: overlap requested unforced, partitioning
  requested unforced, and forced with neither requested.
\<close>

theorem zero_init_overlap_check_witness:
  "MoeHybridParallelZeroOptimizer_init (\<lambda>p. False) (\<lambda>m. []) (ex_args False True False) =
     ([], Inl overlap_error)
   \<and> MoeHybridParallelZeroOptimizer_init (\<lambda>p. False) (\<lambda>m. []) (ex_args False False True) =
     ([], Inl overlap_error)
   \<and> (\<exists>kw. MoeHybridParallelZeroOptimizer_init (\<lambda>p. False) (\<lambda>m. [])
             (ex_args True False False) =
         ([overlap_warning],
          Inr (HybridParallelZeroOptimizer (Optimizer 0) (Module 0)
                (ParamInfo (Some (Optimizer 0))) kw))
        \<and> zs_overlap_communication kw)"
  using zero_init_overlap_check [of "ex_args False True False" "\<lambda>p. False" "\<lambda>m. []"]
        zero_init_overlap_check [of "ex_args False False True" "\<lambda>p. False" "\<lambda>m. []"]
        zero_init_overlap_check [of "ex_args True False False" "\<lambda>p. False" "\<lambda>m. []"]
  by (simp add: ex_args_def ex_zero_def)

subsection \<open>C2: the group assignment\<close>

text \<open>
  Claim C2 says that the group assignment holds two lists, a disjoint and exhaustive
  split of the model's parameters in their order. When \<open>dp_process_group\<close> and
  \<open>moe_dp_group\<close> are different handles this is so (\<open>pg_param_list_partition\<close> above). The
  assignment is a dictionary keyed by the two handles, though, and the constructor takes
  any two handles: given the same handle twice, the second store replaces the first, and
  the assignment handed to the superclass holds one list, the expert one. Below, the
  model has the regular parameter \<open>Param 0\<close> and the expert parameter \<open>Param 1\<close>, both
  handles are \<open>ProcessGroup 0\<close>, and \<open>Param 0\<close> is in no list of the assignment.
\<close>

theorem zero_init_same_group_loses_regular:
  "MoeHybridParallelZeroOptimizer_init (\<lambda>p. p = Param 1) (\<lambda>m. [Param 0, Param 1])
     ((ex_args False False False)\<lparr> zi_moe_dp_group := ProcessGroup 0 \<rparr>) =
   ([], Inr (HybridParallelZeroOptimizer (Optimizer 0) (Module 0) (ParamInfo (Some (Optimizer 0)))
      \<lparr> zs_use_pipeline = False, zs_amp = ex_amp, zs_clip_grad_norm = 0, zs_verbose = False,
        zs_reduce_bucket_size = 1048576, zs_communication_dtype = None,
        zs_overlap_communication = False, zs_partition_grad = False, zs_cpu_offload = False,
        zs_tp_process_group = None, zs_pp_process_group = None, zs_forced_dtype = None,
        zs_pg_to_param_list = [(Some (ProcessGroup 0), [Param 1])] \<rparr>))"
  by (simp add: MoeHybridParallelZeroOptimizer_init_def pg_param_list_def ex_args_def ex_zero_def)

subsection \<open>C3: the product of the axis sizes\<close>

text \<open>
  Claim C3. For every construction of the plugin, with any world size \<open>w\<close> and any
  \<open>ep_size\<close>: the sizes handed to the mesh build are \<open>w // ep_size\<close>, \<open>ep_size\<close> and
  \<open>moe_tp_size\<close>, and a plugin that is constructed has these three as its \<open>moe_dp_size\<close>,
  \<open>ep_size\<close> and \<open>moe_tp_size\<close>, with \<open>moe_tp_size\<close> 1 and the product of the three equal to
  \<open>w\<close>. The floor division alone does not give the product (\<open>moe_axis_sizes_floor\<close>
  above): sizes with another product are handed to the mesh build of line 124 all the
  same, which refuses them, and no plugin is constructed.
\<close>

theorem plugin_axis_sizes_product:
  assumes "MoeHybridParallelPlugin_init w base ep moe_tp force = (ev, r)"
  shows "(moe_tp = 1 \<and> ep \<noteq> 0 \<longrightarrow> NewProcessGroupMesh [w div ep, ep, moe_tp] \<in> set ev)
       \<and> (\<forall>p. r = Inr p \<longrightarrow>
              moe_dp_size p = w div ep \<and> ep_size p = ep \<and> moe_tp_size p = moe_tp \<and>
              moe_tp_size p = 1 \<and>
              moe_pg_mesh p = Mesh [moe_dp_size p, ep_size p, moe_tp_size p] \<and>
              moe_dp_size p * ep_size p * moe_tp_size p = w)"
proof (cases rule: plugin_init_cases
    [where moe_tp = moe_tp and w = w and base = base and ep = ep and force = force])
  case not_implemented
  with assms show ?thesis by auto
next
  case zero_division
  with assms show ?thesis by auto
next
  case mesh_rejects
  with assms show ?thesis by auto
next
  case (constructed p)
  from constructed(5) assms have "r = Inr p"
    and "NewProcessGroupMesh [w div ep, ep, moe_tp] \<in> set ev"
    using constructed(1) by auto
  moreover from constructed(4) have "w div ep * ep * 1 = w"
    by simp
  ultimately show ?thesis
    using constructed(1,8-11) by simp
qed

text \<open>
  World size 8 with \<open>ep_size\<close> 4: the plugin is constructed on the sizes 2, 4, 1, whose
  product is 8.
\<close>

theorem plugin_axis_sizes_product_witness:
  "\<exists>ev p. MoeHybridParallelPlugin_init 8 (ex_base 1 1 1 (ex_zero False False)) 4 1 False =
            (ev, Inr p)
        \<and> NewProcessGroupMesh [2, 4, 1] \<in> set ev
        \<and> moe_dp_size p = 2 \<and> ep_size p = 4 \<and> moe_tp_size p = 1
        \<and> moe_dp_size p * ep_size p * moe_tp_size p = 8"
proof -
  obtain ev r where h:
    "MoeHybridParallelPlugin_init 8 (ex_base 1 1 1 (ex_zero False False)) 4 1 False = (ev, r)"
    by (cases "MoeHybridParallelPlugin_init 8 (ex_base 1 1 1 (ex_zero False False)) 4 1 False")
  have "\<exists>p. r = Inr p"
    using h plugin_init_succeeds [of 4 8 "ex_base 1 1 1 (ex_zero False False)" False]
    by auto
  then obtain p where p: "r = Inr p" ..
  from plugin_axis_sizes_product [OF h] p
  have "NewProcessGroupMesh [2, 4, 1] \<in> set ev"
    and "moe_dp_size p = 2 \<and> ep_size p = 4 \<and> moe_tp_size p = 1
        \<and> moe_dp_size p * ep_size p * moe_tp_size p = 8"
    by simp_all
  with h p show ?thesis
    by blast
qed

subsection \<open>C4: an expert tensor-parallel size other than 1\<close>

text \<open>
  Claim C4. Whatever state the superclass constructor has left, whatever the world
  size, \<open>ep_size\<close> and \<open>force_overlap_comm\<close>: if \<open>moe_tp_size\<close> is not 1, the constructor
  fails with \<open>NotImplementedError\<close>, and it has built no mesh and asked for no group:
  the expert mesh and its three groups are what this constructor builds, and the check
  comes before them. (The superclass constructor, which ran at line 106, is outside this
  module.)
\<close>

theorem moe_tp_size_not_implemented:
  "moe_tp \<noteq> 1 \<Longrightarrow>
     \<exists>ev. MoeHybridParallelPlugin_init w base ep moe_tp force = (ev, Inl NotImplementedError)
        \<and> (\<forall>sizes. NewProcessGroupMesh sizes \<notin> set ev)
        \<and> (\<forall>axis. GetGroupAlongAxis axis \<notin> set ev)"
  by (cases "dp_size base > 1 \<and> pp_size base = 1 \<and> zero_stage base = 0")
     (auto simp: plugin_init_not_implemented set_use_ddp_on set_use_ddp_off ddp_warning_def)

text \<open>World size 8, \<open>ep_size\<close> 4 and \<open>moe_tp_size\<close> 2.\<close>

theorem moe_tp_size_not_implemented_witness:
  "(2 :: int) \<noteq> 1 \<and>
   (\<exists>ev. MoeHybridParallelPlugin_init 8 (ex_base 1 1 1 (ex_zero False False)) 4 2 False =
            (ev, Inl NotImplementedError)
        \<and> (\<forall>sizes. NewProcessGroupMesh sizes \<notin> set ev)
        \<and> (\<forall>axis. GetGroupAlongAxis axis \<notin> set ev))"
  using moe_tp_size_not_implemented [of 2 8 "ex_base 1 1 1 (ex_zero False False)" 4 False]
  by simp

subsection \<open>C5: reinitializing the optimizer\<close>

text \<open>
  Claim C5 as stated has two halves: the optimizer is reinitialized before any wrapper
  is constructed, and the reinitialization is a step the caller performs, not an
  automatic one. The second half fails: \<open>configure\<close> itself calls
  \<open>reinitialize_optimizer\<close>. Below, a caller who has done nothing but pass a model and a
  plain optimizer to a plugin with \<open>ep_size\<close> 2 finds the call in the trace of \<open>configure\<close>,
  ahead of the construction of the wrapper.
\<close>

theorem configure_reinitializes_itself:
  "configure (\<lambda>p. False) (\<lambda>m. []) (ex_plugin 1 0 (ex_zero False False) 1 2 False)
      ex_wrapped (Some (Optimizer 0)) (1 :: nat) (2 :: nat) (3 :: nat) =
   ([ReinitializeOptimizer (Optimizer 0) (ModelWrapper 5),
     NewOptimizerWrapper (ex_amp_optimizer (ModelWrapper 5)),
     SetAttr (ModelWrapper 5) ''update_master_params''],
    Inr (\<lparr> module = ModelWrapper 5,
           instance_attrs = [(''update_master_params'',
             MethodType (ex_amp_optimizer (ModelWrapper 5)) ''update_master_params''
               (ModelWrapper 5))] \<rparr>,
         Some (ex_amp_optimizer (ModelWrapper 5)), 1, 2, 3))"
  by (simp add: configure_def wrap_model_def wrap_optimizer_def get_param_info_def Let_def
        inject_update_master_params_def ex_defs)

text \<open>
  Claim C5, amended. When \<open>ep_size\<close> is greater than 1 and the optimizer given to
  \<open>configure\<close> is not a wrapper, \<open>configure\<close> itself reinitializes the optimizer, once,
  against the model as it is after wrapping, and does so before it constructs any
  optimizer wrapper.
\<close>

theorem configure_reinitializes_before_wrapping:
  assumes "ep_size self > 1" and "\<not> isinstance_OptimizerWrapper opt"
  shows "\<exists>pre post.
           fst (configure f ps self m0 (Some opt) c d l) =
             pre @ ReinitializeOptimizer opt (module (snd (wrap_model self m0))) # post
           \<and> (\<forall>w. NewOptimizerWrapper w \<notin> set pre)
           \<and> (\<forall>p q. ReinitializeOptimizer p q \<notin> set pre)
           \<and> (\<forall>p q. ReinitializeOptimizer p q \<notin> set post)"
proof -
  obtain ev_m m where wm: "wrap_model self m0 = (ev_m, m)"
    by (cases "wrap_model self m0")
  obtain ev_o r where wo:
    "wrap_optimizer f ps self (get_param_info (Some opt)) (module m) opt = (ev_o, r)"
    by (cases "wrap_optimizer f ps self (get_param_info (Some opt)) (module m) opt")
  from wrap_optimizer_trace [of f ps self "get_param_info (Some opt)" "module m" opt]
  obtain mid where mid:
    "fst (wrap_optimizer f ps self (get_param_info (Some opt)) (module m) opt) =
       (if ep_size self > 1 then [ReinitializeOptimizer opt (module m)] else []) @ mid"
    "\<forall>p q. ReinitializeOptimizer p q \<notin> set mid"
    by blast
  from mid(1) wo assms(1) have ev_o: "ev_o = ReinitializeOptimizer opt (module m) # mid"
    by simp
  from wrap_model_events [OF wm]
  have pre1: "\<forall>w. NewOptimizerWrapper w \<notin> set ev_m"
    and pre2: "\<forall>p q. ReinitializeOptimizer p q \<notin> set ev_m"
    by blast+
  define post where
    "post = (case r of Inl e \<Rightarrow> mid
             | Inr w \<Rightarrow> mid @ [SetAttr (module m) ''update_master_params''])"
  have m: "module (snd (wrap_model self m0)) = module m"
    using wm by simp
  have tr: "fst (configure f ps self m0 (Some opt) c d l) =
          ev_m @ ReinitializeOptimizer opt (module (snd (wrap_model self m0))) # post"
    unfolding m configure_unwrapped [OF assms(2) wm wo, of c d l] ev_o post_def
    by (cases r) simp_all
  have post: "\<forall>p q. ReinitializeOptimizer p q \<notin> set post"
    using mid(2) unfolding post_def by (cases r) simp_all
  from tr pre1 pre2 post show ?thesis
    by (intro exI conjI)
qed

text \<open>A plugin with \<open>ep_size\<close> 2, a plain model and a plain optimizer.\<close>

theorem configure_reinitializes_before_wrapping_witness:
  "ep_size (ex_plugin 1 0 (ex_zero False False) 1 2 False) > 1
   \<and> \<not> isinstance_OptimizerWrapper (Optimizer 0)
   \<and> (\<exists>pre post.
         fst (configure (\<lambda>p. False) (\<lambda>m. []) (ex_plugin 1 0 (ex_zero False False) 1 2 False)
                ex_model (Some (Optimizer 0)) (1 :: nat) (2 :: nat) (3 :: nat)) =
           pre @ ReinitializeOptimizer (Optimizer 0)
                   (module (snd (wrap_model (ex_plugin 1 0 (ex_zero False False) 1 2 False)
                                   ex_model))) # post
         \<and> (\<forall>w. NewOptimizerWrapper w \<notin> set pre)
         \<and> (\<forall>p q. ReinitializeOptimizer p q \<notin> set pre)
         \<and> (\<forall>p q. ReinitializeOptimizer p q \<notin> set post))"
proof -
  have h1: "ep_size (ex_plugin 1 0 (ex_zero False False) 1 2 False) > 1"
    by (simp add: ex_defs)
  have h2: "\<not> isinstance_OptimizerWrapper (Optimizer 0)"
    by simp
  note configure_reinitializes_before_wrapping
         [OF h1 h2, of "\<lambda>p. False" "\<lambda>m. []" ex_model "1 :: nat" "2 :: nat" "3 :: nat"]
  with h1 h2 show ?thesis
    by (intro conjI)
qed

subsection \<open>C6: the update-master-params method of the model\<close>

text \<open>
  Claim C6 as stated: the returned model exposes the method as an explicit interface
  method rather than through a language-level rebinding. It fails: line 208 builds a
  \<open>MethodType\<close> object and assigns it to an attribute of the model instance. Below, a
  model with no instance attribute comes back with the attribute \<open>update_master_params\<close>
  set on the instance, the assignment being the last entry of the trace.
\<close>

theorem configure_assigns_instance_attribute:
  "instance_attrs ex_wrapped = []
   \<and> configure (\<lambda>p. False) (\<lambda>m. []) (ex_plugin 1 0 (ex_zero False False) 1 1 False)
      ex_wrapped (Some (Optimizer 0)) (1 :: nat) (2 :: nat) (3 :: nat) =
   ([NewOptimizerWrapper (ex_amp_optimizer (ModelWrapper 5)),
     SetAttr (ModelWrapper 5) ''update_master_params''],
    Inr (\<lparr> module = ModelWrapper 5,
           instance_attrs = [(''update_master_params'',
             MethodType (ex_amp_optimizer (ModelWrapper 5)) ''update_master_params''
               (ModelWrapper 5))] \<rparr>,
         Some (ex_amp_optimizer (ModelWrapper 5)), 1, 2, 3))"
  by (simp add: configure_def wrap_model_def wrap_optimizer_def get_param_info_def Let_def
        inject_update_master_params_def ex_defs)

text \<open>
  Claim C6, amended. For every call to \<open>configure\<close> with an optimizer that is not a
  wrapper, if the call returns, then the returned optimizer is a newly constructed
  wrapper, and the returned model carries the instance attribute \<open>update_master_params\<close>,
  a \<open>MethodType\<close> object binding the wrapper's \<open>update_master_params\<close> to the model, which
  \<open>configure\<close> has assigned as its last step, after the wrapper was constructed.
\<close>

theorem configure_injects_update_master_params:
  assumes "configure f ps self m0 (Some opt) c d l = (ev, Inr (m', o', c', d', l'))"
    and "\<not> isinstance_OptimizerWrapper opt"
  shows "\<exists>w pre. o' = Some w \<and> isinstance_OptimizerWrapper w
           \<and> map_of (instance_attrs m') ''update_master_params'' =
               Some (MethodType w ''update_master_params'' (module m'))
           \<and> ev = pre @ [SetAttr (module m') ''update_master_params'']
           \<and> NewOptimizerWrapper w \<in> set pre"
proof -
  obtain ev_m m where wm: "wrap_model self m0 = (ev_m, m)"
    by (cases "wrap_model self m0")
  obtain ev_o r where wo:
    "wrap_optimizer f ps self (get_param_info (Some opt)) (module m) opt = (ev_o, r)"
    by (cases "wrap_optimizer f ps self (get_param_info (Some opt)) (module m) opt")
  note cf = configure_unwrapped [OF assms(2) wm wo, of c d l]
  from cf assms(1) obtain w where r: "r = Inr w"
    by (cases r) auto
  from cf assms(1) r have res:
    "ev = (ev_m @ ev_o) @ [SetAttr (module m) ''update_master_params'']"
    "m' = inject_update_master_params m w" "o' = Some w"
    by auto
  from wrap_optimizer_returns [OF wo [unfolded r]]
  have w: "isinstance_OptimizerWrapper w" "NewOptimizerWrapper w \<in> set (ev_m @ ev_o)"
    by auto
  have attr: "map_of (instance_attrs m') ''update_master_params'' =
               Some (MethodType w ''update_master_params'' (module m'))"
    by (simp add: res(2) inject_update_master_params_def update_conv')
  have "module m' = module m"
    by (simp add: res(2) inject_update_master_params_def)
  with res w attr show ?thesis
    by metis
qed

text \<open>A plain model and a plain optimizer, at ZeRO stage 0 in half precision.\<close>

theorem configure_injects_update_master_params_witness:
  "\<not> isinstance_OptimizerWrapper (Optimizer 0)
   \<and> (\<exists>ev m' w. configure (\<lambda>p. False) (\<lambda>m. []) (ex_plugin 1 0 (ex_zero False False) 1 1 False)
           ex_model (Some (Optimizer 0)) (1 :: nat) (2 :: nat) (3 :: nat) =
             (ev, Inr (m', Some w, 1, 2, 3))
        \<and> isinstance_OptimizerWrapper w
        \<and> map_of (instance_attrs m') ''update_master_params'' =
            Some (MethodType w ''update_master_params'' (module m')))"
proof -
  obtain ev m' o' where h:
    "configure (\<lambda>p. False) (\<lambda>m. []) (ex_plugin 1 0 (ex_zero False False) 1 1 False)
       ex_model (Some (Optimizer 0)) (1 :: nat) (2 :: nat) (3 :: nat) =
     (ev, Inr (m', o', 1, 2, 3))"
    by (simp add: configure_def wrap_model_def wrap_optimizer_def get_param_info_def Let_def
          ex_defs)
  have h2: "\<not> isinstance_OptimizerWrapper (Optimizer 0)"
    by simp
  from configure_injects_update_master_params [OF h h2] h h2 show ?thesis
    by blast
qed

subsection \<open>C7: plain distributed-data-parallel mode\<close>




subsection \<open>C8: the sharded optimizer on degenerate groups\<close>

text \<open>
  Claim C8 as stated: for every call to \<open>configure\<close> at a ZeRO stage above 0 with
  data-parallel and expert-data-parallel size 1, the warning is emitted and the sharded
  optimizer is constructed and returned, never an error. Two calls at stage 2, with
  gradient partitioning requested and not forced, show otherwise: with a plain optimizer
  the warning is emitted and then the constructor's overlap check raises; with no
  optimizer nothing is warned and nothing is constructed.
\<close>

theorem degenerate_zero_configure_raises:
  "configure (\<lambda>p. False) (\<lambda>m. []) (ex_plugin 1 2 (ex_zero False True) 1 1 False)
      ex_wrapped (Some (Optimizer 0)) (1 :: nat) (2 :: nat) (3 :: nat) =
     ([overhead_warning], Inl overlap_error)
   \<and> configure (\<lambda>p. False) (\<lambda>m. []) (ex_plugin 1 2 (ex_zero False True) 1 1 False)
      ex_wrapped None (1 :: nat) (2 :: nat) (3 :: nat) =
     ([], Inr (ex_wrapped, None, 1, 2, 3))"
  by (simp add: configure_def wrap_model_def wrap_optimizer_def get_param_info_def Let_def
        MoeHybridParallelZeroOptimizer_init_def ex_defs)

text \<open>
  Claim C8, amended. For every call to \<open>configure\<close> with an optimizer that is not a
  wrapper, at a ZeRO stage other than 0 and with neither the data-parallel nor the
  expert-data-parallel size above 1: the inefficiency warning is emitted; the degenerate
  sizes are never a reason to fail; the sharded optimizer is constructed and returned
  whenever its own overlap check passes (\<open>force_overlap_comm\<close>, or neither overlap nor
  gradient partitioning requested), and otherwise the call raises that check's error.
\<close>

theorem degenerate_zero_warns:
  assumes "zero_stage self \<noteq> 0" and "\<not> (dp_size self > 1 \<or> moe_dp_size self > 1)"
    and "\<not> isinstance_OptimizerWrapper opt"
  shows "overhead_warning \<in> set (fst (configure f ps self m0 (Some opt) c d l))
     \<and> (force_overlap_comm self \<or>
          \<not> (overlap_communication (zero_config self) \<or> partition_grad (zero_config self)) \<longrightarrow>
        (\<exists>m' kw. snd (configure f ps self m0 (Some opt) c d l) =
            Inr (m', Some (HybridParallelZeroOptimizer opt (module m')
                             (get_param_info (Some opt)) kw), c, d, l)))
     \<and> (\<not> force_overlap_comm self \<and>
          (overlap_communication (zero_config self) \<or> partition_grad (zero_config self)) \<longrightarrow>
        snd (configure f ps self m0 (Some opt) c d l) = Inl overlap_error)"
proof -
  obtain ev_m m where wm: "wrap_model self m0 = (ev_m, m)"
    by (cases "wrap_model self m0")
  obtain ev_o r where wo:
    "wrap_optimizer f ps self (get_param_info (Some opt)) (module m) opt = (ev_o, r)"
    by (cases "wrap_optimizer f ps self (get_param_info (Some opt)) (module m) opt")
  note cf = configure_unwrapped [OF assms(3) wm wo, of c d l]
  show ?thesis
  proof (cases "force_overlap_comm self \<or>
      \<not> (overlap_communication (zero_config self) \<or> partition_grad (zero_config self))")
    case True
    from wrap_optimizer_accepts [OF assms(1) True, of f ps "get_param_info (Some opt)" "module m" opt]
      wo assms(2)
    obtain kw where kw: "r = Inr (HybridParallelZeroOptimizer opt (module m)
                                   (get_param_info (Some opt)) kw)"
      "overhead_warning \<in> set ev_o"
      by auto
    have "module (inject_update_master_params m
            (HybridParallelZeroOptimizer opt (module m) (get_param_info (Some opt)) kw)) = module m"
      by (simp add: inject_update_master_params_def)
    with cf kw True show ?thesis
      by auto
  next
    case False
    from wrap_optimizer_rejects [OF assms(1), of f ps "get_param_info (Some opt)" "module m" opt]
      False wo assms(2)
    have "r = Inl overlap_error" "overhead_warning \<in> set ev_o"
      by auto
    with cf False show ?thesis
      by auto
  qed
qed

text \<open>
  ZeRO stage 1 on one worker, once with nothing requested and once with overlap
  requested and not forced.
\<close>

theorem degenerate_zero_warns_witness:
  "zero_stage (ex_plugin 1 1 (ex_zero False False) 1 1 False) \<noteq> 0
   \<and> \<not> (dp_size (ex_plugin 1 1 (ex_zero False False) 1 1 False) > 1 \<or>
         moe_dp_size (ex_plugin 1 1 (ex_zero False False) 1 1 False) > 1)
   \<and> \<not> isinstance_OptimizerWrapper (Optimizer 0)
   \<and> overhead_warning \<in> set (fst (configure (\<lambda>p. False) (\<lambda>m. [])
         (ex_plugin 1 1 (ex_zero False False) 1 1 False) ex_model (Some (Optimizer 0))
         (1 :: nat) (2 :: nat) (3 :: nat)))
   \<and> (\<exists>m' kw. snd (configure (\<lambda>p. False) (\<lambda>m. [])
         (ex_plugin 1 1 (ex_zero False False) 1 1 False) ex_model (Some (Optimizer 0))
         (1 :: nat) (2 :: nat) (3 :: nat)) =
          Inr (m', Some (HybridParallelZeroOptimizer (Optimizer 0) (module m')
                           (get_param_info (Some (Optimizer 0))) kw), 1, 2, 3))
   \<and> snd (configure (\<lambda>p. False) (\<lambda>m. [])
         (ex_plugin 1 1 (ex_zero True False) 1 1 False) ex_model (Some (Optimizer 0))
         (1 :: nat) (2 :: nat) (3 :: nat)) = Inl overlap_error"
proof -
  have h1: "zero_stage (ex_plugin 1 1 (ex_zero oc False) 1 1 False) \<noteq> 0" for oc
    by (simp add: ex_defs)
  have h2: "\<not> (dp_size (ex_plugin 1 1 (ex_zero oc False) 1 1 False) > 1 \<or>
         moe_dp_size (ex_plugin 1 1 (ex_zero oc False) 1 1 False) > 1)" for oc
    by (simp add: ex_defs)
  have h3: "\<not> isinstance_OptimizerWrapper (Optimizer 0)"
    by simp
  have f1: "force_overlap_comm (ex_plugin 1 1 (ex_zero False False) 1 1 False) \<or>
     \<not> (overlap_communication (zero_config (ex_plugin 1 1 (ex_zero False False) 1 1 False)) \<or>
        partition_grad (zero_config (ex_plugin 1 1 (ex_zero False False) 1 1 False)))"
    by (simp add: ex_defs)
  have f2: "\<not> force_overlap_comm (ex_plugin 1 1 (ex_zero True False) 1 1 False) \<and>
     (overlap_communication (zero_config (ex_plugin 1 1 (ex_zero True False) 1 1 False)) \<or>
        partition_grad (zero_config (ex_plugin 1 1 (ex_zero True False) 1 1 False)))"
    by (simp add: ex_defs)
  note a = degenerate_zero_warns [OF h1 [of False] h2 [of False] h3, of "\<lambda>p. False" "\<lambda>m. []" ex_model
             "1 :: nat" "2 :: nat" "3 :: nat"]
  note b = degenerate_zero_warns [OF h1 [of True] h2 [of True] h3, of "\<lambda>p. False" "\<lambda>m. []" ex_model
             "1 :: nat" "2 :: nat" "3 :: nat"]
  from a f1 have a1: "overhead_warning \<in> set (fst (configure (\<lambda>p. False) (\<lambda>m. [])
         (ex_plugin 1 1 (ex_zero False False) 1 1 False) ex_model (Some (Optimizer 0))
         (1 :: nat) (2 :: nat) (3 :: nat)))"
    and a2: "\<exists>m' kw. snd (configure (\<lambda>p. False) (\<lambda>m. [])
         (ex_plugin 1 1 (ex_zero False False) 1 1 False) ex_model (Some (Optimizer 0))
         (1 :: nat) (2 :: nat) (3 :: nat)) =
          Inr (m', Some (HybridParallelZeroOptimizer (Optimizer 0) (module m')
                           (get_param_info (Some (Optimizer 0))) kw), 1, 2, 3)"
    by blast+
  from b f2 have b1: "snd (configure (\<lambda>p. False) (\<lambda>m. [])
         (ex_plugin 1 1 (ex_zero True False) 1 1 False) ex_model (Some (Optimizer 0))
         (1 :: nat) (2 :: nat) (3 :: nat)) = Inl overlap_error"
    by blast
  from h1 [of False] h2 [of False] h3 a1 a2 b1 show ?thesis
    by (intro conjI)
qed

subsection \<open>C9: what \<open>configure\<close> leaves alone\<close>

text \<open>
  Claim C9. For every call to \<open>configure\<close> that returns, the criterion, the dataloader
  and the learning-rate scheduler come back as they were passed, and a model that is a
  \<open>ModelWrapper\<close> already comes back as the same object: no \<open>HybridParallelModule\<close> is
  constructed. (By \<open>configure_raises_iff\<close> above, the only calls that do not return are
  those the sharded optimizer's overlap check rejects.)
\<close>

theorem configure_frame:
  assumes "configure f ps self m0 optimizer c d l = (ev, Inr (m', o', c', d', l'))"
  shows "c' = c \<and> d' = d \<and> l' = l \<and>
         (isinstance_ModelWrapper (module m0) \<longrightarrow>
            module m' = module m0 \<and> (\<forall>w. NewHybridParallelModule w \<notin> set ev))"
proof (cases "optimizer = None \<or> (\<exists>opt. optimizer = Some opt \<and> isinstance_OptimizerWrapper opt)")
  case True
  from configure_passthrough [OF True, of f ps self m0 c d l] assms
  have "c' = c" "d' = d" "l' = l" "ev = fst (wrap_model self m0)" "m' = snd (wrap_model self m0)"
    by simp_all
  then show ?thesis
    by (simp add: wrap_model_wrapper)
next
  case False
  then obtain opt where opt: "optimizer = Some opt" "\<not> isinstance_OptimizerWrapper opt"
    by (cases optimizer) auto
  obtain ev_m m where wm: "wrap_model self m0 = (ev_m, m)"
    by (cases "wrap_model self m0")
  obtain ev_o r where wo:
    "wrap_optimizer f ps self (get_param_info (Some opt)) (module m) opt = (ev_o, r)"
    by (cases "wrap_optimizer f ps self (get_param_info (Some opt)) (module m) opt")
  note cf = configure_unwrapped [OF opt(2) wm wo, of c d l]
  from cf assms opt(1) obtain w where r: "r = Inr w"
    by (cases r) auto
  from cf assms opt(1) r have res: "c' = c" "d' = d" "l' = l"
    "ev = ev_m @ ev_o @ [SetAttr (module m) ''update_master_params'']"
    "m' = inject_update_master_params m w"
    by auto
  have keep: "module m' = module m0 \<and> (\<forall>w. NewHybridParallelModule w \<notin> set ev)"
    if wrapped: "isinstance_ModelWrapper (module m0)"
  proof -
    from wrap_model_wrapper [OF wrapped, of self] wm have m: "ev_m = []" "m = m0"
      by simp_all
    from wrap_optimizer_returns [OF wo [unfolded r]]
    obtain pre where pre: "ev_o = pre @ [NewOptimizerWrapper w]"
      by blast
    from wrap_optimizer_trace [of f ps self "get_param_info (Some opt)" "module m" opt] wo
    have "\<forall>x. NewHybridParallelModule x \<notin> set ev_o"
    proof (cases "zero_stage self = 0")
      case True
      from wrap_optimizer_stage0 [OF True, of f ps "get_param_info (Some opt)" "module m" opt] wo
      show ?thesis by auto
    next
      case nz: False
      show ?thesis
      proof (cases "force_overlap_comm self \<or>
          \<not> (overlap_communication (zero_config self) \<or> partition_grad (zero_config self))")
        case True
        from wrap_optimizer_accepts [OF nz True, of f ps "get_param_info (Some opt)" "module m" opt]
          wo
        show ?thesis by (auto simp: overhead_warning_def overlap_warning_def)
      next
        case False
        with wrap_optimizer_rejects [OF nz, of f ps "get_param_info (Some opt)" "module m" opt] wo
        show ?thesis by (auto simp: overhead_warning_def)
      qed
    qed
    with res(4,5) m show ?thesis
      by (simp add: inject_update_master_params_def)
  qed
  with res(1-3) show ?thesis
    by blast
qed

text \<open>
  A model that is a \<open>ModelWrapper\<close> already and a plain optimizer, at ZeRO stage 0.
\<close>

theorem configure_frame_witness:
  "\<exists>ev m' o'. configure (\<lambda>p. False) (\<lambda>m. []) (ex_plugin 1 0 (ex_zero False False) 1 1 False)
        ex_wrapped (Some (Optimizer 0)) (1 :: nat) (2 :: nat) (3 :: nat) =
          (ev, Inr (m', o', 1, 2, 3))
      \<and> isinstance_ModelWrapper (module ex_wrapped)
      \<and> module m' = module ex_wrapped \<and> (\<forall>w. NewHybridParallelModule w \<notin> set ev)"
proof -
  obtain ev m' o' where h:
    "configure (\<lambda>p. False) (\<lambda>m. []) (ex_plugin 1 0 (ex_zero False False) 1 1 False)
       ex_wrapped (Some (Optimizer 0)) (1 :: nat) (2 :: nat) (3 :: nat) =
     (ev, Inr (m', o', 1, 2, 3))"
    by (simp add: configure_def wrap_model_def wrap_optimizer_def get_param_info_def Let_def
          ex_defs)
  have w: "isinstance_ModelWrapper (module ex_wrapped)"
    by (simp add: ex_wrapped_def)
  from configure_frame [OF h] w
  have "module m' = module ex_wrapped \<and> (\<forall>w. NewHybridParallelModule w \<notin> set ev)"
    by blast
  with h w show ?thesis
    by blast
qed

subsection \<open>C10: no optimizer, or an optimizer that is a wrapper already\<close>

text \<open>
  Claim C10. For every call to \<open>configure\<close> whose optimizer argument is \<open>None\<close> or is an
  \<open>OptimizerWrapper\<close> already: the call returns, the optimizer comes back exactly as
  passed, and the trace holds no reinitialization, no construction of an optimizer
  wrapper and no attribute assignment; the returned model has the instance attributes
  the argument had if it was a wrapper, and none if it has just been wrapped.
\<close>

theorem configure_passthrough_optimizer:
  assumes "optimizer = None \<or> (\<exists>opt. optimizer = Some opt \<and> isinstance_OptimizerWrapper opt)"
  shows "\<exists>ev m'. configure f ps self m0 optimizer c d l = (ev, Inr (m', optimizer, c, d, l))
     \<and> (\<forall>p q. ReinitializeOptimizer p q \<notin> set ev)
     \<and> (\<forall>w. NewOptimizerWrapper w \<notin> set ev)
     \<and> (\<forall>p q. SetAttr p q \<notin> set ev)
     \<and> instance_attrs m' =
         (if isinstance_ModelWrapper (module m0) then instance_attrs m0 else [])"
proof -
  obtain ev_m m where wm: "wrap_model self m0 = (ev_m, m)"
    by (cases "wrap_model self m0")
  from configure_passthrough [OF assms, of f ps self m0 c d l] wm
  have cf: "configure f ps self m0 optimizer c d l = (ev_m, Inr (m, optimizer, c, d, l))"
    by simp
  from wrap_model_events [OF wm]
  have e1: "\<forall>p q. ReinitializeOptimizer p q \<notin> set ev_m"
    and e2: "\<forall>w. NewOptimizerWrapper w \<notin> set ev_m"
    and e3: "\<forall>p q. SetAttr p q \<notin> set ev_m"
    by blast+
  have at: "instance_attrs m =
         (if isinstance_ModelWrapper (module m0) then instance_attrs m0 else [])"
    using wm by (cases "isinstance_ModelWrapper (module m0)") (auto simp: wrap_model_def Let_def)
  from cf e1 e2 e3 at show ?thesis
    by (intro exI conjI)
qed

text \<open>
  A plain model with no optimizer, and a model that is a wrapper with an optimizer that
  is a wrapper, both at ZeRO stage 2 with \<open>ep_size\<close> 2.
\<close>

theorem configure_passthrough_optimizer_witness:
  "configure (\<lambda>p. False) (\<lambda>m. []) (ex_plugin 1 2 (ex_zero False True) 1 2 False)
      ex_wrapped (Some (OptimizerWrapper 7)) (1 :: nat) (2 :: nat) (3 :: nat) =
     ([], Inr (ex_wrapped, Some (OptimizerWrapper 7), 1, 2, 3))
   \<and> (\<exists>ev m'. configure (\<lambda>p. False) (\<lambda>m. []) (ex_plugin 1 2 (ex_zero False True) 1 2 False)
        ex_model None (1 :: nat) (2 :: nat) (3 :: nat) = (ev, Inr (m', None, 1, 2, 3))
      \<and> (\<forall>p q. ReinitializeOptimizer p q \<notin> set ev)
      \<and> (\<forall>w. NewOptimizerWrapper w \<notin> set ev)
      \<and> (\<forall>p q. SetAttr p q \<notin> set ev)
      \<and> instance_attrs m' = [])"
proof -
  have a: "Some (OptimizerWrapper 7) = None \<or>
      (\<exists>opt. Some (OptimizerWrapper 7) = Some opt \<and> isinstance_OptimizerWrapper opt)"
    by simp
  have b: "(None :: optimizer option) = None \<or>
      (\<exists>opt. (None :: optimizer option) = Some opt \<and> isinstance_OptimizerWrapper opt)"
    by simp
  from configure_passthrough_optimizer [OF a, of "\<lambda>p. False" "\<lambda>m. []"
      "ex_plugin 1 2 (ex_zero False True) 1 2 False" ex_wrapped "1 :: nat" "2 :: nat" "3 :: nat"]
  have first: "configure (\<lambda>p. False) (\<lambda>m. []) (ex_plugin 1 2 (ex_zero False True) 1 2 False)
      ex_wrapped (Some (OptimizerWrapper 7)) (1 :: nat) (2 :: nat) (3 :: nat) =
     ([], Inr (ex_wrapped, Some (OptimizerWrapper 7), 1, 2, 3))"
    by (simp add: configure_def wrap_model_def ex_wrapped_def)
  from configure_passthrough_optimizer [OF b, of "\<lambda>p. False" "\<lambda>m. []"
      "ex_plugin 1 2 (ex_zero False True) 1 2 False" ex_model "1 :: nat" "2 :: nat" "3 :: nat"]
  have second: "\<exists>ev m'. configure (\<lambda>p. False) (\<lambda>m. [])
        (ex_plugin 1 2 (ex_zero False True) 1 2 False)
        ex_model None (1 :: nat) (2 :: nat) (3 :: nat) = (ev, Inr (m', None, 1, 2, 3))
      \<and> (\<forall>p q. ReinitializeOptimizer p q \<notin> set ev)
      \<and> (\<forall>w. NewOptimizerWrapper w \<notin> set ev)
      \<and> (\<forall>p q. SetAttr p q \<notin> set ev)
      \<and> instance_attrs m' = []"
    by (simp add: ex_model_def)
  from first second show ?thesis
    by (intro conjI)
qed

end
